theory Spec2Isabelle
  imports Complex_Main "HOL-Library.Sublist"
begin

section \<open>Values, errors and dictionaries\<close>

text \<open>
  The module \<^verbatim>\<open>GWForge/population/mass.py\<close> computes with Python floats and
  one-dimensional numpy arrays. Here a float is a \<^typ>\<open>real\<close> and an array a list of
  reals: rounding, infinities and NaN are outside the model, division follows HOL
  (\<open>x / 0 = 0\<close>, where numpy gives \<open>inf\<close> or \<open>nan\<close> with a warning), and the
  float power \<^verbatim>\<open>**\<close> is \<open>powr\<close>, which agrees with it on the positive bases (masses
  and mass scales) the module is meant for. A dictionary is a map, a raised exception a
  value of type \<open>error\<close>.
\<close>

type_synonym array = "real list"

type_synonym params = "string \<rightharpoonup> real"

type_synonym samples = "string \<rightharpoonup> array"

datatype error =
    KeyError string
  | ValueError string
  | IndexError string
  | UnboundLocalError string
  | LibraryError string

definition getitem :: "params \<Rightarrow> string \<Rightarrow> error + real" where
  "getitem d k = (case d k of None \<Rightarrow> Inl (KeyError k) | Some v \<Rightarrow> Inr v)"

definition and_then :: "error + 'a \<Rightarrow> ('a \<Rightarrow> error + 'b) \<Rightarrow> error + 'b" where
  "and_then r k = (case r of Inl e \<Rightarrow> Inl e | Inr v \<Rightarrow> k v)"

text \<open>Python's \<^verbatim>\<open>a in b\<close> on two strings: \<open>a\<close> occurs in \<open>b\<close> as a contiguous piece.\<close>

fun is_substring :: "string \<Rightarrow> string \<Rightarrow> bool" where
  "is_substring a [] = (a = [])"
| "is_substring a (c # cs) = (prefix a (c # cs) \<or> is_substring a cs)"

text \<open>\<^verbatim>\<open>str\<close> of a list of plain strings, as \<^verbatim>\<open>'{}'.format(choices)\<close> prints it.\<close>

definition repr_str :: "string \<Rightarrow> string" where
  "repr_str s = [CHR 0x27] @ s @ [CHR 0x27]"

fun join :: "string \<Rightarrow> string list \<Rightarrow> string" where
  "join sep [] = []"
| "join sep [x] = x"
| "join sep (x # y # ys) = x @ sep @ join sep (y # ys)"

definition str_list :: "string list \<Rightarrow> string" where
  "str_list xs = ''['' @ join '', '' (map repr_str xs) @ '']''"

section \<open>The numpy operations the module uses\<close>

text \<open>
  An operator between two arrays works element by element; numpy stretches an array of
  length one and raises \<^verbatim>\<open>ValueError\<close> on any other mismatch of lengths.
\<close>

definition broadcast :: "(real \<Rightarrow> real \<Rightarrow> real) \<Rightarrow> array \<Rightarrow> array \<Rightarrow> error + array" where
  "broadcast f xs ys =
     (if length xs = length ys then Inr (map2 f xs ys)
      else if length xs = 1 then Inr (map (f (hd xs)) ys)
      else if length ys = 1 then Inr (map (\<lambda>x. f x (hd ys)) xs)
      else Inl (ValueError ''operands could not be broadcast together''))"

text \<open>
  \<^verbatim>\<open>numpy.linspace(start, stop, num)\<close>: \<open>num\<close> points, the \<open>i\<close>-th at
  \<open>i * step + start\<close> with \<open>step = (stop - start) / (num - 1)\<close>.
\<close>

definition linspace :: "real \<Rightarrow> real \<Rightarrow> nat \<Rightarrow> array" where
  "linspace start stop num =
     map (\<lambda>i. real i * ((stop - start) / real (num - 1)) + start) [0..<num]"

definition zeros_like :: "array \<Rightarrow> array" where
  "zeros_like a = map (\<lambda>_. 0) a"

definition ones :: "int \<Rightarrow> error + array" where
  "ones n = (if n < 0 then Inl (ValueError ''negative dimensions are not allowed'')
             else Inr (replicate (nat n) 1))"

definition amin :: "array \<Rightarrow> error + real" where
  "amin a = (case a of
      [] \<Rightarrow> Inl (ValueError ''zero-size array to reduction operation minimum which has no identity'')
    | x # xs \<Rightarrow> Inr (fold min xs x))"

definition amax :: "array \<Rightarrow> error + real" where
  "amax a = (case a of
      [] \<Rightarrow> Inl (ValueError ''zero-size array to reduction operation maximum which has no identity'')
    | x # xs \<Rightarrow> Inr (fold max xs x))"

text \<open>Boolean-mask indexing: \<^verbatim>\<open>a[mask]\<close> reads and \<^verbatim>\<open>a[mask] = v\<close> writes.\<close>

definition getitem_mask :: "array \<Rightarrow> bool list \<Rightarrow> error + array" where
  "getitem_mask a sel =
     (if length sel \<noteq> length a then Inl (IndexError ''boolean index did not match indexed array'')
      else Inr (map fst (filter snd (zip a sel))))"

fun put_mask :: "array \<Rightarrow> bool list \<Rightarrow> array \<Rightarrow> array" where
  "put_mask [] bs vs = []"
| "put_mask (x # xs) [] vs = x # xs"
| "put_mask (x # xs) (b # bs) vs =
     (if b then (case vs of [] \<Rightarrow> x # put_mask xs bs [] | v # ws \<Rightarrow> v # put_mask xs bs ws)
      else x # put_mask xs bs vs)"

definition setitem_mask :: "array \<Rightarrow> bool list \<Rightarrow> array \<Rightarrow> error + array" where
  "setitem_mask a sel vs =
     (let k = length (filter id sel) in
      if length sel \<noteq> length a then Inl (IndexError ''boolean index did not match indexed array'')
      else if length vs = k then Inr (put_mask a sel vs)
      else if length vs = 1 then Inr (put_mask a sel (replicate k (hd vs)))
      else Inl (ValueError ''NumPy boolean array indexing assignment cannot assign input values''))"

section \<open>The two filters\<close>

text \<open>
  \<^verbatim>\<open>notch_filter(val, parameters)\<close> and \<^verbatim>\<open>low_pass_filter(val, parameters)\<close>,
  called on arrays. The dictionary is read from left to right, so the first missing key
  is the one the \<^verbatim>\<open>KeyError\<close> names.
\<close>

definition notch_filter :: "array \<Rightarrow> params \<Rightarrow> error + array" where
  "notch_filter val parameters =
     and_then (getitem parameters ''A'') (\<lambda>A.
     and_then (getitem parameters ''gamma_low'') (\<lambda>gamma_low.
     and_then (getitem parameters ''eta_low'') (\<lambda>eta_low.
     and_then (getitem parameters ''gamma_high'') (\<lambda>gamma_high.
     and_then (getitem parameters ''eta_high'') (\<lambda>eta_high.
     and_then (broadcast (*)
                 (map (\<lambda>t. 1 + t) (map (\<lambda>t. t powr eta_low) (map (\<lambda>v. gamma_low / v) val)))
                 (map (\<lambda>t. 1 + t) (map (\<lambda>t. t powr eta_high) (map (\<lambda>v. v / gamma_high) val))))
       (\<lambda>den. Inr (map (\<lambda>t. 1 - t) (map (\<lambda>d. A / d) den))))))))"

definition low_pass_filter :: "array \<Rightarrow> params \<Rightarrow> error + array" where
  "low_pass_filter val parameters =
     and_then (getitem parameters ''mmax'') (\<lambda>mmax.
     and_then (getitem parameters ''n'') (\<lambda>n.
     Inr (map (\<lambda>d. 1 / d) (map (\<lambda>t. 1 + t) (map (\<lambda>t. t powr n) (map (\<lambda>v. v / mmax) val))))))"

definition choices :: "string list" where
  "choices = [''PowerLaw+Peak'', ''MultiPeak'', ''BrokenPowerLaw'', ''UniformSecondary'',
              ''DoubleGaussian'', ''LogNormal'', ''PowerLawDipBreak'', ''PowerLaw'']"

section \<open>The external libraries\<close>

text \<open>
  The module builds on \<^verbatim>\<open>gwpopulation\<close> (the smoothed mass models) and \<^verbatim>\<open>bilby\<close>
  (the priors). Neither belongs to the repository, so both are parameters of the model.
  A prior object is the constructor call that made it; what the library does with it is
  read from a \<open>library\<close> record:
  \<^item> \<open>smoothed c\<close>: importing class \<open>c\<close> and constructing it with
    \<^verbatim>\<open>normalization_shape=(1000, 1000)\<close>; the import or the constructor may raise;
  \<^item> \<open>new_prior p\<close>: the exception the constructor of \<open>p\<close> raises, if any;
  \<^item> \<open>prob p v\<close>: the density of \<open>p\<close> at the point \<open>v\<close>; \<^verbatim>\<open>p.prob(array)\<close> applies
    it to every element;
  \<^item> \<open>draw p n g\<close>: \<^verbatim>\<open>p.sample(n)\<close> with the random generator in state \<open>g\<close>: the
    draws or an exception, and the generator's next state.
  The \<^verbatim>\<open>name=\<close> labels given to some priors do not influence any of this and are left
  out.
\<close>

datatype gw_class =
    SinglePeakSmoothedMassDistribution
  | MultiPeakSmoothedMassDistribution
  | BrokenPowerLawSmoothedMassDistribution

record gw_model =
  m1s :: array
  qs :: array
  p_m1 :: "array \<Rightarrow> params \<Rightarrow> error + array"
  p_q :: "array \<Rightarrow> array \<Rightarrow> params \<Rightarrow> error + array"

datatype prior =
    Interped array array real real
  | TruncatedGaussian real real real real
  | PowerLaw real real real
  | LogNormal real real
  | Uniform real real

record 'g library =
  smoothed :: "gw_class \<Rightarrow> error + gw_model"
  new_prior :: "prior \<Rightarrow> error option"
  prob :: "prior \<Rightarrow> real \<Rightarrow> real"
  draw :: "prior \<Rightarrow> int \<Rightarrow> 'g \<Rightarrow> (error + array) \<times> 'g"

section \<open>The sampler object and the state it works on\<close>

record Mass =
  mass_model :: string
  number_of_samples :: int
  parameters :: params

datatype level = WARNING | INFO

record 'g state =
  samples :: samples
  rng :: 'g
  logged :: "(level \<times> string) list"

type_synonym 'g action = "'g state \<Rightarrow> error option \<times> 'g state"

text \<open>
  Statements run on the state; \<open>Some e\<close> in the first component is the exception \<open>e\<close>
  in flight, with the state as it was when \<open>e\<close> was raised.
\<close>

definition raise :: "error \<Rightarrow> 'g action" where
  "raise e s = (Some e, s)"

definition seq :: "'g action \<Rightarrow> 'g action \<Rightarrow> 'g action" where
  "seq a b s = (case a s of (None, s') \<Rightarrow> b s' | (Some e, s') \<Rightarrow> (Some e, s'))"

definition eval :: "error + 'a \<Rightarrow> ('a \<Rightarrow> 'g action) \<Rightarrow> 'g action" where
  "eval r k s = (case r of Inl e \<Rightarrow> (Some e, s) | Inr v \<Rightarrow> k v s)"

definition make_prior :: "'g library \<Rightarrow> prior \<Rightarrow> (prior \<Rightarrow> 'g action) \<Rightarrow> 'g action" where
  "make_prior lib p k s = (case new_prior lib p of Some e \<Rightarrow> (Some e, s) | None \<Rightarrow> k p s)"

definition store :: "string \<Rightarrow> array \<Rightarrow> 'g action" where
  "store key xs s = (None, s\<lparr>samples := (samples s)(key \<mapsto> xs)\<rparr>)"

definition sample_into :: "'g library \<Rightarrow> string \<Rightarrow> prior \<Rightarrow> int \<Rightarrow> 'g action" where
  "sample_into lib key p n s =
     (case draw lib p n (rng s) of
        (Inl e, g) \<Rightarrow> (Some e, s\<lparr>rng := g\<rparr>)
      | (Inr xs, g) \<Rightarrow> (None, s\<lparr>samples := (samples s)(key \<mapsto> xs), rng := g\<rparr>))"

definition interped :: "'g library \<Rightarrow> array \<Rightarrow> array \<Rightarrow> (prior \<Rightarrow> 'g action) \<Rightarrow> 'g action" where
  "interped lib xx yy k =
     eval (amin xx) (\<lambda>lo.
     eval (amax xx) (\<lambda>hi.
     make_prior lib (Interped xx yy lo hi) k))"

section \<open>\<^verbatim>\<open>Mass.sample\<close>: the first tier\<close>

text \<open>
  The body of the \<^verbatim>\<open>try\<close>. When the name selects none of the three classes the
  variable \<^verbatim>\<open>model\<close> is never bound, and reading it raises
  \<^verbatim>\<open>UnboundLocalError\<close>. In \<^verbatim>\<open>param not in ('beta')\<close> the parentheses hold a
  string, not a tuple, so the test is Python's substring test on \<^verbatim>\<open>'beta'\<close>; the
  second comprehension tests membership in a tuple of three keys.
\<close>

definition select_model :: "'g library \<Rightarrow> string \<Rightarrow> (error + gw_model) option" where
  "select_model lib name =
     (if is_substring ''powerlawpeak'' name then Some (smoothed lib SinglePeakSmoothedMassDistribution)
      else if is_substring ''multipeak'' name then Some (smoothed lib MultiPeakSmoothedMassDistribution)
      else if is_substring ''brokenpowerlaw'' name
        then Some (smoothed lib BrokenPowerLawSmoothedMassDistribution)
      else None)"

definition mass_parameters :: "params \<Rightarrow> params" where
  "mass_parameters d = (\<lambda>param. if \<not> is_substring param ''beta'' then d param else None)"

definition mass_ratio_parameters :: "params \<Rightarrow> params" where
  "mass_ratio_parameters d =
     (\<lambda>param. if param \<in> set [''beta'', ''mmin'', ''delta_m''] then d param else None)"

definition tier1 :: "'g library \<Rightarrow> Mass \<Rightarrow> 'g action" where
  "tier1 lib self =
     (case select_model lib (mass_model self) of
        None \<Rightarrow> raise (UnboundLocalError ''model'')
      | Some made \<Rightarrow>
          eval made (\<lambda>model.
          (let mass1 = m1s model; mass_ratio = qs model in
           eval (p_m1 model mass1 (mass_parameters (parameters self))) (\<lambda>prob_mass_1.
           eval (p_q model mass_ratio mass1 (mass_ratio_parameters (parameters self)))
             (\<lambda>prob_mass_ratio.
           interped lib mass1 prob_mass_1 (\<lambda>primary_mass_prior.
           interped lib mass_ratio prob_mass_ratio (\<lambda>mass_ratio_prior.
           seq (sample_into lib ''mass_1_source'' primary_mass_prior (number_of_samples self))
               (sample_into lib ''mass_ratio'' mass_ratio_prior (number_of_samples self)))))))))"

section \<open>\<^verbatim>\<open>Mass.sample\<close>: the second tier\<close>

definition secondary_mass_parameters :: "params \<Rightarrow> params" where
  "secondary_mass_parameters d =
     (\<lambda>param. if param \<notin> set [''beta'', ''minimum_secondary_mass'', ''maximum_secondary_mass'']
               then d param else None)"

definition sample_uniformsecondary :: "'g library \<Rightarrow> Mass \<Rightarrow> 'g action" where
  "sample_uniformsecondary lib self =
     eval (smoothed lib SinglePeakSmoothedMassDistribution) (\<lambda>model.
     (let mass1 = m1s model in
      eval (p_m1 model mass1 (secondary_mass_parameters (parameters self))) (\<lambda>prob_mass_1.
      interped lib mass1 prob_mass_1 (\<lambda>primary_mass_prior.
      seq (sample_into lib ''mass_1_source'' primary_mass_prior (number_of_samples self))
          (eval (getitem (parameters self) ''minimum_secondary_mass'') (\<lambda>lo.
           eval (getitem (parameters self) ''maximum_secondary_mass'') (\<lambda>hi.
           make_prior lib (Uniform lo hi) (\<lambda>secondar_mass_prior.
           sample_into lib ''mass_2_source'' secondar_mass_prior (number_of_samples self)))))))))"

definition sample_doublegaussian :: "'g library \<Rightarrow> Mass \<Rightarrow> 'g action" where
  "sample_doublegaussian lib self =
     eval (getitem (parameters self) ''mmin'') (\<lambda>mmin.
     eval (getitem (parameters self) ''mmax'') (\<lambda>mmax.
     (let mass = linspace mmin mmax 5001 in
      eval (getitem (parameters self) ''mu_1'') (\<lambda>mu_1.
      eval (getitem (parameters self) ''sigma_1'') (\<lambda>sigma_1.
      make_prior lib (TruncatedGaussian mu_1 sigma_1 mmin mmax) (\<lambda>prior_1.
      eval (getitem (parameters self) ''breaking_fraction'') (\<lambda>breaking_fraction.
      (let prob_1 = map (\<lambda>t. t * breaking_fraction) (map (prob lib prior_1) mass) in
       eval (getitem (parameters self) ''mu_2'') (\<lambda>mu_2.
       eval (getitem (parameters self) ''sigma_2'') (\<lambda>sigma_2.
       make_prior lib (TruncatedGaussian mu_2 sigma_2 mmin mmax) (\<lambda>prior_2.
       (let prob_2 = map (\<lambda>t. t * (1 - breaking_fraction)) (map (prob lib prior_2) mass) in
        eval (broadcast (+) prob_1 prob_2) (\<lambda>prob.
        interped lib mass prob (\<lambda>mass_prior.
        seq (sample_into lib ''mass_1_source'' mass_prior (number_of_samples self))
            (sample_into lib ''mass_2_source'' mass_prior (number_of_samples self))))))))))))))))"

definition sample_lognormal :: "'g library \<Rightarrow> Mass \<Rightarrow> 'g action" where
  "sample_lognormal lib self =
     eval (getitem (parameters self) ''mu'') (\<lambda>mu.
     eval (getitem (parameters self) ''sigma'') (\<lambda>sigma.
     make_prior lib (LogNormal mu sigma) (\<lambda>mass_prior.
     seq (sample_into lib ''mass_1_source'' mass_prior (number_of_samples self))
         (sample_into lib ''mass_2_source'' mass_prior (number_of_samples self)))))"

text \<open>
  The \<^verbatim>\<open>dip\<close> branch writes two segments into one array of zeros. One segment is
  \<^verbatim>\<open>prior.prob(mass[sel]) * notch_filter(mass[sel], ...) * low_pass_filter(mass[sel], ...)\<close>.
\<close>

definition dip_segment :: "'g library \<Rightarrow> prior \<Rightarrow> array \<Rightarrow> bool list \<Rightarrow> params \<Rightarrow> error + array" where
  "dip_segment lib pr mass sel d =
     and_then (getitem_mask mass sel) (\<lambda>val.
     and_then (notch_filter val d) (\<lambda>notch.
     and_then (broadcast (*) (map (prob lib pr) val) notch) (\<lambda>filtered.
     and_then (low_pass_filter val d) (\<lambda>low_pass.
     broadcast (*) filtered low_pass))))"

definition sample_dip :: "'g library \<Rightarrow> Mass \<Rightarrow> 'g action" where
  "sample_dip lib self =
     eval (getitem (parameters self) ''mmin'') (\<lambda>mmin.
     eval (getitem (parameters self) ''mmax'') (\<lambda>mmax.
     (let mass = linspace mmin mmax 5001; prob0 = zeros_like mass in
      eval (getitem (parameters self) ''alpha_1'') (\<lambda>alpha_1.
      eval (getitem (parameters self) ''gamma_high'') (\<lambda>gamma_high.
      make_prior lib (PowerLaw alpha_1 mmin gamma_high) (\<lambda>prior_1.
      (let lower = map (\<lambda>m. m \<le> gamma_high) mass; upper = map (\<lambda>m. m > gamma_high) mass in
       eval (dip_segment lib prior_1 mass lower (parameters self)) (\<lambda>seg_1.
       eval (setitem_mask prob0 lower seg_1) (\<lambda>prob1.
       eval (getitem (parameters self) ''alpha_2'') (\<lambda>alpha_2.
       make_prior lib (PowerLaw alpha_2 mmin gamma_high) (\<lambda>prior_2.
       eval (dip_segment lib prior_2 mass upper (parameters self)) (\<lambda>seg_2.
       eval (setitem_mask prob1 upper seg_2) (\<lambda>prob2.
       interped lib mass prob2 (\<lambda>prior.
       seq (sample_into lib ''mass_1_source'' prior (number_of_samples self))
           (sample_into lib ''mass_2_source'' prior (number_of_samples self))))))))))))))))"

definition sample_powerlaw :: "'g library \<Rightarrow> Mass \<Rightarrow> 'g action" where
  "sample_powerlaw lib self =
     eval (getitem (parameters self) ''alpha'') (\<lambda>alpha.
     eval (getitem (parameters self) ''mmin'') (\<lambda>mmin.
     eval (getitem (parameters self) ''mmax'') (\<lambda>mmax.
     make_prior lib (PowerLaw alpha mmin mmax) (\<lambda>mass_prior.
     seq (sample_into lib ''mass_1_source'' mass_prior (number_of_samples self))
         (sample_into lib ''mass_2_source'' mass_prior (number_of_samples self))))))"

definition sample_fixed :: "Mass \<Rightarrow> 'g action" where
  "sample_fixed self =
     eval (ones (number_of_samples self)) (\<lambda>unit_array.
     eval (getitem (parameters self) ''primary_mass'') (\<lambda>primary_mass.
     (let mass_1_source = map (\<lambda>t. t * primary_mass) unit_array in
      seq (store ''mass_1_source'' mass_1_source)
          (eval (getitem (parameters self) ''mass_ratio'') (\<lambda>mass_ratio.
           store ''mass_2_source''
             (map (\<lambda>t. t * (if mass_ratio < 1 then mass_ratio else 1 / mass_ratio))
                mass_1_source))))))"

definition unrecognized :: "Mass \<Rightarrow> error" where
  "unrecognized self =
     ValueError (mass_model self @ '' is not implemented in gwpopulation. Please choose from ''
                 @ str_list choices)"

definition tier2_dispatch :: "'g library \<Rightarrow> Mass \<Rightarrow> 'g action" where
  "tier2_dispatch lib self =
     (if is_substring ''uniformsecondary'' (mass_model self) then sample_uniformsecondary lib self
      else if is_substring ''doublegaussian'' (mass_model self) then sample_doublegaussian lib self
      else if is_substring ''lognormal'' (mass_model self)
              \<or> is_substring ''loggaussian'' (mass_model self) then sample_lognormal lib self
      else if is_substring ''dip'' (mass_model self) then sample_dip lib self
      else if is_substring ''powerlaw'' (mass_model self) then sample_powerlaw lib self
      else if is_substring ''fixed'' (mass_model self) then sample_fixed self
      else raise (unrecognized self))"

definition log_fallback :: "Mass \<Rightarrow> 'g state \<Rightarrow> 'g state" where
  "log_fallback self s =
     s\<lparr>logged := logged s @
         [(WARNING, ''Parameterised mass model does not exist in gwpopulation''),
          (INFO, ''Generating samples using '' @ mass_model self @ '' model'')]\<rparr>"

definition tier2 :: "'g library \<Rightarrow> Mass \<Rightarrow> 'g action" where
  "tier2 lib self s = tier2_dispatch lib self (log_fallback self s)"

section \<open>\<^verbatim>\<open>Mass.sample\<close>: the whole method\<close>

text \<open>
  The bare \<^verbatim>\<open>except:\<close> catches every exception of the first tier and runs the
  second tier on the state the first one left behind.
\<close>

definition sample_try :: "'g library \<Rightarrow> Mass \<Rightarrow> 'g action" where
  "sample_try lib self s =
     (case tier1 lib self s of
        (None, s') \<Rightarrow> (None, s')
      | (Some e, s') \<Rightarrow> tier2 lib self s')"

text \<open>
  Modelled from the spec: \<^verbatim>\<open>conversion.generate_mass_parameters\<close>, a function of
  the repository's \<^verbatim>\<open>conversion\<close> module, whose source is not available. The
  specification says that it returns the mapping augmented with derived mass quantities
  (total mass, chirp mass, mass ratio if absent). Which quantities it derives and how is
  the parameter \<open>derive\<close>; the fields already present stay as they are.
\<close>

definition generate_mass_parameters :: "(samples \<Rightarrow> bool \<Rightarrow> samples) \<Rightarrow> samples \<Rightarrow> bool \<Rightarrow> samples" where
  "generate_mass_parameters derive smp source = derive smp source ++ smp"

definition sample ::
  "'g library \<Rightarrow> (samples \<Rightarrow> bool \<Rightarrow> samples) \<Rightarrow> Mass \<Rightarrow> 'g state \<Rightarrow> (error + samples) \<times> 'g state" where
  "sample lib derive self s =
     (case sample_try lib self (s\<lparr>samples := Map.empty\<rparr>) of
        (Some e, s') \<Rightarrow> (Inl e, s')
      | (None, s') \<Rightarrow>
          (Inr (generate_mass_parameters derive (samples s') True), s'))"

section \<open>Names that reach one branch\<close>

text \<open>
  A name that selects none of the three classes of the first tier always lands in the
  second tier; the predicates below then say which branch of the second tier it takes.
\<close>

definition no_tier1 :: "string \<Rightarrow> bool" where
  "no_tier1 name \<longleftrightarrow>
     \<not> is_substring ''powerlawpeak'' name \<and> \<not> is_substring ''multipeak'' name
     \<and> \<not> is_substring ''brokenpowerlaw'' name"

definition selects_doublegaussian :: "string \<Rightarrow> bool" where
  "selects_doublegaussian name \<longleftrightarrow>
     no_tier1 name \<and> \<not> is_substring ''uniformsecondary'' name
     \<and> is_substring ''doublegaussian'' name"

definition selects_dip :: "string \<Rightarrow> bool" where
  "selects_dip name \<longleftrightarrow>
     no_tier1 name \<and> \<not> is_substring ''uniformsecondary'' name
     \<and> \<not> is_substring ''doublegaussian'' name \<and> \<not> is_substring ''lognormal'' name
     \<and> \<not> is_substring ''loggaussian'' name \<and> is_substring ''dip'' name"

definition selects_fixed :: "string \<Rightarrow> bool" where
  "selects_fixed name \<longleftrightarrow>
     no_tier1 name \<and> \<not> is_substring ''uniformsecondary'' name
     \<and> \<not> is_substring ''doublegaussian'' name \<and> \<not> is_substring ''lognormal'' name
     \<and> \<not> is_substring ''loggaussian'' name \<and> \<not> is_substring ''dip'' name
     \<and> \<not> is_substring ''powerlaw'' name \<and> is_substring ''fixed'' name"

definition recognized :: "string \<Rightarrow> bool" where
  "recognized name \<longleftrightarrow>
     (\<exists>tag \<in> set [''powerlawpeak'', ''multipeak'', ''brokenpowerlaw'', ''uniformsecondary'',
                   ''doublegaussian'', ''lognormal'', ''loggaussian'', ''dip'', ''powerlaw'',
                   ''fixed'']. is_substring tag name)"

section \<open>A library to run the sampler on\<close>

text \<open>
  A stand-in for the two libraries, for running the model on concrete inputs:
  \<^verbatim>\<open>gwpopulation\<close> is not installed, every prior can be constructed, the power law has
  bilby's density (zero outside its bounds), and a draw of \<open>n\<close> samples returns \<open>n\<close>
  copies of the generator's counter and advances it.
\<close>

fun test_prob :: "prior \<Rightarrow> real \<Rightarrow> real" where
  "test_prob (PowerLaw alpha lo hi) v =
     (if lo \<le> v \<and> v \<le> hi
      then v powr alpha * (1 + alpha) / (hi powr (1 + alpha) - lo powr (1 + alpha)) else 0)"
| "test_prob (Uniform lo hi) v = (if lo \<le> v \<and> v \<le> hi then 1 / (hi - lo) else 0)"
| "test_prob _ v = 1"

definition test_draw :: "prior \<Rightarrow> int \<Rightarrow> nat \<Rightarrow> (error + array) \<times> nat" where
  "test_draw p n g =
     (if n < 0 then (Inl (ValueError ''negative dimensions are not allowed''), g)
      else (Inr (replicate (nat n) (real g)), Suc g))"

definition test_library :: "nat library" where
  "test_library =
     \<lparr>smoothed = (\<lambda>c. Inl (LibraryError ''No module named gwpopulation'')),
      new_prior = (\<lambda>p. None),
      prob = test_prob,
      draw = test_draw\<rparr>"

definition test_state :: "nat state" where
  "test_state = \<lparr>samples = Map.empty, rng = 0, logged = []\<rparr>"

definition test_derive :: "samples \<Rightarrow> bool \<Rightarrow> samples" where
  "test_derive smp source = Map.empty"

definition test_dip_parameters :: params where
  "test_dip_parameters =
     [''mmin'' \<mapsto> 5, ''mmax'' \<mapsto> 100, ''alpha_1'' \<mapsto> - 2, ''alpha_2'' \<mapsto> - 1,
      ''gamma_low'' \<mapsto> 10, ''gamma_high'' \<mapsto> 50, ''eta_low'' \<mapsto> 2, ''eta_high'' \<mapsto> 2,
      ''A'' \<mapsto> 1, ''n'' \<mapsto> 2]"

definition test_gaussian_parameters :: params where
  "test_gaussian_parameters =
     [''mmin'' \<mapsto> 5, ''mmax'' \<mapsto> 50, ''mu_1'' \<mapsto> 10, ''sigma_1'' \<mapsto> 2,
      ''mu_2'' \<mapsto> 30, ''sigma_2'' \<mapsto> 4, ''breaking_fraction'' \<mapsto> 1 / 4]"

definition test_mass :: "string \<Rightarrow> params \<Rightarrow> Mass" where
  "test_mass name d = \<lparr>mass_model = name, number_of_samples = 3, parameters = d\<rparr>"



section \<open>What the specification says about the densities and the draws\<close>

text \<open>
  The specification's words, as definitions of their own, to compare the code with.
  Two draws from one sampler: the first from the generator as it is, the second from
  the generator the first one left; an exception of either draw ends the method.
\<close>

definition two_draws :: "'g library \<Rightarrow> prior \<Rightarrow> int \<Rightarrow> 'g action" where
  "two_draws lib p n s =
     (case draw lib p n (rng s) of
        (Inl e, g) \<Rightarrow> (Some e, s\<lparr>rng := g\<rparr>)
      | (Inr xs, g) \<Rightarrow>
          (case draw lib p n g of
             (Inl e, g') \<Rightarrow> (Some e, s\<lparr>samples := (samples s)(''mass_1_source'' \<mapsto> xs), rng := g'\<rparr>)
           | (Inr ys, g') \<Rightarrow>
               (None, s\<lparr>samples := (samples s)(''mass_1_source'' \<mapsto> xs, ''mass_2_source'' \<mapsto> ys),
                        rng := g'\<rparr>)))"

definition notch :: "real \<Rightarrow> real \<Rightarrow> real \<Rightarrow> real \<Rightarrow> real \<Rightarrow> real \<Rightarrow> real" where
  "notch A gamma_low eta_low gamma_high eta_high v =
     1 - A / ((1 + (gamma_low / v) powr eta_low) * (1 + (v / gamma_high) powr eta_high))"

definition lowpass :: "real \<Rightarrow> real \<Rightarrow> real \<Rightarrow> real" where
  "lowpass mmax n v = 1 / (1 + (v / mmax) powr n)"

definition mixture_density ::
  "'g library \<Rightarrow> real \<Rightarrow> real \<Rightarrow> real \<Rightarrow> real \<Rightarrow> real \<Rightarrow> real \<Rightarrow> real \<Rightarrow> real \<Rightarrow> real" where
  "mixture_density lib mmin mmax mu_1 sigma_1 mu_2 sigma_2 breaking_fraction m =
     breaking_fraction * prob lib (TruncatedGaussian mu_1 sigma_1 mmin mmax) m
     + (1 - breaking_fraction) * prob lib (TruncatedGaussian mu_2 sigma_2 mmin mmax) m"

definition dip_density :: "'g library \<Rightarrow> params \<Rightarrow> real \<Rightarrow> real" where
  "dip_density lib d m =
     (let filters = notch (the (d ''A'')) (the (d ''gamma_low'')) (the (d ''eta_low''))
                      (the (d ''gamma_high'')) (the (d ''eta_high'')) m
                    * lowpass (the (d ''mmax'')) (the (d ''n'')) m
      in if m \<le> the (d ''gamma_high'')
         then prob lib (PowerLaw (the (d ''alpha_1'')) (the (d ''mmin'')) (the (d ''gamma_high''))) m
              * filters
         else prob lib (PowerLaw (the (d ''alpha_2'')) (the (d ''mmin'')) (the (d ''gamma_high''))) m
              * filters)"

definition dip_keys :: "string list" where
  "dip_keys = [''mmin'', ''mmax'', ''alpha_1'', ''alpha_2'', ''gamma_low'', ''gamma_high'',
               ''eta_low'', ''eta_high'', ''A'', ''n'']"




definition bounded_power_law :: "'g library \<Rightarrow> bool" where
  "bounded_power_law lib \<longleftrightarrow>
     (\<forall>alpha lo hi v. v < lo \<or> hi < v \<longrightarrow> prob lib (PowerLaw alpha lo hi) v = 0)"

text \<open>
  A name reaches the \<^verbatim>\<open>dip\<close> branch of the second tier when it contains
  \<^verbatim>\<open>dip\<close> and none of the pieces tested before it.
\<close>

definition dip_branch :: "string \<Rightarrow> bool" where
  "dip_branch name \<longleftrightarrow>
     \<not> is_substring ''uniformsecondary'' name \<and> \<not> is_substring ''doublegaussian'' name
     \<and> \<not> is_substring ''lognormal'' name \<and> \<not> is_substring ''loggaussian'' name
     \<and> is_substring ''dip'' name"







section \<open>Basic facts about the operations\<close>

lemma getitem_Some: "d k = Some v \<Longrightarrow> getitem d k = Inr v"
  by (simp add: getitem_def)

lemma map2_same: "map2 f (map g xs) (map h xs) = map (\<lambda>x. f (g x) (h x)) xs"
  by (induction xs) simp_all

lemma broadcast_same_length:
  "length xs = length ys \<Longrightarrow> broadcast f xs ys = Inr (map2 f xs ys)"
  by (simp add: broadcast_def)

lemma broadcast_maps:
  "broadcast f (map g xs) (map h xs) = Inr (map (\<lambda>x. f (g x) (h x)) xs)"
  by (simp add: broadcast_same_length map2_same)

lemma and_then_Inr: "and_then (Inr v) k = k v"
  by (simp add: and_then_def)

lemma eval_Inr: "eval (Inr v) k = k v"
  by (rule ext) (simp add: eval_def)

lemma make_prior_ok: "new_prior lib p = None \<Longrightarrow> make_prior lib p k = k p"
  by (rule ext) (simp add: make_prior_def)

lemma seq_two_draws:
  "seq (sample_into lib ''mass_1_source'' p n) (sample_into lib ''mass_2_source'' p n)
     = two_draws lib p n"
  by (rule ext) (simp add: seq_def sample_into_def two_draws_def split: prod.splits sum.splits)

lemma is_substring_sublist: "is_substring a b \<longleftrightarrow> sublist a b"
  by (induction b) (simp_all add: sublist_Cons_right)

lemma is_substring_trans: "is_substring a b \<Longrightarrow> is_substring b c \<Longrightarrow> is_substring a c"
  unfolding is_substring_sublist by (rule sublist_order.order.trans)

section \<open>The filters\<close>

lemma notch_filter_map:
  assumes "d ''A'' = Some A" "d ''gamma_low'' = Some gl" "d ''eta_low'' = Some el"
    "d ''gamma_high'' = Some gh" "d ''eta_high'' = Some eh"
  shows "notch_filter val d =
     Inr (map (\<lambda>v. 1 - A / ((1 + (gl / v) powr el) * (1 + (v / gh) powr eh))) val)"
  using assms
  by (simp add: notch_filter_def and_then_def getitem_Some broadcast_same_length map2_same
        comp_def)

lemma low_pass_filter_map:
  assumes "d ''mmax'' = Some mmax" "d ''n'' = Some n"
  shows "low_pass_filter val d = Inr (map (\<lambda>v. 1 / (1 + (v / mmax) powr n)) val)"
  using assms
  by (simp add: low_pass_filter_def and_then_def getitem_Some comp_def)

text \<open>
  Claim C4. Both filters are pure and work element by element: on a dictionary that
  holds \<open>A\<close>, \<open>gamma_low\<close>, \<open>eta_low\<close>, \<open>gamma_high\<close>, \<open>eta_high\<close>, \<open>mmax\<close> and \<open>n\<close>,
  the notch filter maps every value \<open>v\<close> of its argument to
  \<open>1 - A / ((1 + (gamma_low / v) ^ eta_low) * (1 + (v / gamma_high) ^ eta_high))\<close> and
  the low-pass filter maps it to \<open>1 / (1 + (v / mmax) ^ n)\<close>, the powers being real
  powers.
\<close>

theorem filters_elementwise:
  assumes "d ''A'' = Some A" "d ''gamma_low'' = Some gl" "d ''eta_low'' = Some el"
    "d ''gamma_high'' = Some gh" "d ''eta_high'' = Some eh"
    "d ''mmax'' = Some mmax" "d ''n'' = Some n"
  shows "notch_filter val d =
           Inr (map (\<lambda>v. 1 - A / ((1 + (gl / v) powr el) * (1 + (v / gh) powr eh))) val)
       \<and> low_pass_filter val d = Inr (map (\<lambda>v. 1 / (1 + (v / mmax) powr n)) val)"
  using assms by (simp add: notch_filter_map low_pass_filter_map)

theorem filters_elementwise_witness:
  "notch_filter [10, 20]
     [''A'' \<mapsto> 1, ''gamma_low'' \<mapsto> 10, ''eta_low'' \<mapsto> 2, ''gamma_high'' \<mapsto> 1000,
      ''eta_high'' \<mapsto> 2, ''mmax'' \<mapsto> 100, ''n'' \<mapsto> 2]
     = Inr [1 - 1 / (2 * (1 + (1 / 100)\<^sup>2)), 1 - 1 / ((1 + (1 / 2)\<^sup>2) * (1 + (1 / 50)\<^sup>2))]
   \<and> low_pass_filter [10, 20]
     [''A'' \<mapsto> 1, ''gamma_low'' \<mapsto> 10, ''eta_low'' \<mapsto> 2, ''gamma_high'' \<mapsto> 1000,
      ''eta_high'' \<mapsto> 2, ''mmax'' \<mapsto> 100, ''n'' \<mapsto> 2]
     = Inr [1 / (1 + (1 / 10)\<^sup>2), 1 / (1 + (1 / 5)\<^sup>2)]"
  using filters_elementwise [of "[''A'' \<mapsto> 1, ''gamma_low'' \<mapsto> 10, ''eta_low'' \<mapsto> 2,
      ''gamma_high'' \<mapsto> 1000, ''eta_high'' \<mapsto> 2, ''mmax'' \<mapsto> 100, ''n'' \<mapsto> 2]"
      1 10 2 1000 2 100 2 "[10, 20]"]
  by simp

section \<open>From the first tier to the second\<close>

lemma tier1_unbound:
  "no_tier1 (mass_model self) \<Longrightarrow> tier1 lib self s = (Some (UnboundLocalError ''model''), s)"
  by (simp add: tier1_def select_model_def no_tier1_def raise_def)

lemma sample_try_no_tier1:
  "no_tier1 (mass_model self) \<Longrightarrow>
     sample_try lib self s = tier2_dispatch lib self (log_fallback self s)"
  by (simp add: sample_try_def tier1_unbound tier2_def)

lemma sample_try_raised:
  "fst (tier1 lib self s) = Some e \<Longrightarrow>
     sample_try lib self s = tier2_dispatch lib self (log_fallback self (snd (tier1 lib self s)))"
  by (cases "tier1 lib self s") (simp add: sample_try_def tier2_def)

lemma sample_try_returned:
  "fst (tier1 lib self s) = None \<Longrightarrow> sample_try lib self s = tier1 lib self s"
  by (cases "tier1 lib self s") (simp add: sample_try_def)

text \<open>
  Claim C7. An exception of the first tier, whatever it is, does not leave
  \<^verbatim>\<open>sample()\<close>: the method goes on with the second tier's dispatch on the same
  object, from the state the first tier left, after logging a warning and an
  information line. A name that selects no first-tier model raises (the unbound
  \<^verbatim>\<open>model\<close>) and so takes the same way. Every exception that does leave the
  \<^verbatim>\<open>try\<close> statement comes from the second tier's dispatch.
\<close>

theorem tier1_failure_falls_through:
  "(fst (tier1 lib self s) = Some e \<longrightarrow>
      sample_try lib self s
        = tier2_dispatch lib self (log_fallback self (snd (tier1 lib self s))))
   \<and> (no_tier1 (mass_model self) \<longrightarrow>
        fst (tier1 lib self s) = Some (UnboundLocalError ''model'')
        \<and> sample_try lib self s = tier2_dispatch lib self (log_fallback self s))
   \<and> (fst (sample_try lib self s) = Some e \<longrightarrow>
        fst (tier1 lib self s) \<noteq> None
        \<and> fst (tier2_dispatch lib self (log_fallback self (snd (tier1 lib self s)))) = Some e)
   \<and> logged (log_fallback self s) = logged s @
        [(WARNING, ''Parameterised mass model does not exist in gwpopulation''),
         (INFO, ''Generating samples using '' @ mass_model self @ '' model'')]"
proof (intro conjI impI)
  assume "fst (tier1 lib self s) = Some e"
  then show "sample_try lib self s
        = tier2_dispatch lib self (log_fallback self (snd (tier1 lib self s)))"
    by (rule sample_try_raised)
next
  assume nt: "no_tier1 (mass_model self)"
  then show "fst (tier1 lib self s) = Some (UnboundLocalError ''model'')"
    by (simp add: tier1_unbound)
  from nt show "sample_try lib self s = tier2_dispatch lib self (log_fallback self s)"
    by (rule sample_try_no_tier1)
next
  assume r: "fst (sample_try lib self s) = Some e"
  show "fst (tier1 lib self s) \<noteq> None"
  proof
    assume "fst (tier1 lib self s) = None"
    with r show False by (simp add: sample_try_returned)
  qed
  then obtain e' where "fst (tier1 lib self s) = Some e'" by auto
  with r show "fst (tier2_dispatch lib self (log_fallback self (snd (tier1 lib self s)))) = Some e"
    by (simp add: sample_try_raised)
next
  show "logged (log_fallback self s) = logged s @
        [(WARNING, ''Parameterised mass model does not exist in gwpopulation''),
         (INFO, ''Generating samples using '' @ mass_model self @ '' model'')]"
    by (simp add: log_fallback_def)
qed

theorem tier1_failure_falls_through_witness:
  "fst (tier1 test_library (test_mass ''powerlawpeak'' Map.empty) test_state)
     = Some (LibraryError ''No module named gwpopulation'')
   \<and> sample_try test_library (test_mass ''powerlawpeak'' Map.empty) test_state
     = tier2_dispatch test_library (test_mass ''powerlawpeak'' Map.empty)
         (log_fallback (test_mass ''powerlawpeak'' Map.empty) test_state)
   \<and> no_tier1 (mass_model (test_mass ''lognormal'' Map.empty))
   \<and> sample_try test_library (test_mass ''lognormal'' Map.empty) test_state
     = tier2_dispatch test_library (test_mass ''lognormal'' Map.empty)
         (log_fallback (test_mass ''lognormal'' Map.empty) test_state)
   \<and> fst (sample_try test_library (test_mass ''lognormal'' Map.empty) test_state)
     = Some (KeyError ''mu'')
   \<and> fst (tier2_dispatch test_library (test_mass ''lognormal'' Map.empty)
         (log_fallback (test_mass ''lognormal'' Map.empty)
            (snd (tier1 test_library (test_mass ''lognormal'' Map.empty) test_state))))
     = Some (KeyError ''mu'')"
proof -
  have a: "tier1 test_library (test_mass ''powerlawpeak'' Map.empty) test_state
     = (Some (LibraryError ''No module named gwpopulation''), test_state)"
    by (simp add: tier1_def select_model_def test_library_def test_mass_def eval_def)
  have b: "no_tier1 (mass_model (test_mass ''lognormal'' Map.empty))"
    by (simp add: no_tier1_def test_mass_def)
  have c: "fst (sample_try test_library (test_mass ''lognormal'' Map.empty) test_state)
     = Some (KeyError ''mu'')"
    unfolding sample_try_no_tier1 [OF b]
    by (simp add: tier2_dispatch_def sample_lognormal_def test_mass_def getitem_def eval_def)
  show ?thesis
    using a b c
      tier1_failure_falls_through [of test_library "test_mass ''powerlawpeak'' Map.empty"
        test_state "LibraryError ''No module named gwpopulation''"]
      tier1_failure_falls_through [of test_library "test_mass ''lognormal'' Map.empty"
        test_state "KeyError ''mu''"]
    by simp
qed

section \<open>The unrecognized name\<close>

lemma unrecognized_raises:
  assumes "\<not> recognized (mass_model self)"
  shows "sample lib derive self s =
     (Inl (unrecognized self), log_fallback self (s\<lparr>samples := Map.empty\<rparr>))"
proof -
  from assms have nt: "no_tier1 (mass_model self)"
    by (simp add: recognized_def no_tier1_def)
  from assms have "tier2_dispatch lib self = raise (unrecognized self)"
    by (simp add: recognized_def tier2_dispatch_def)
  then show ?thesis
    by (simp add: sample_def sample_try_no_tier1 [OF nt] raise_def)
qed

text \<open>
  Claim C1. A name that contains none of the recognized pieces makes \<^verbatim>\<open>sample()\<close>
  raise \<^verbatim>\<open>ValueError\<close>, and the message holds the name and the list \<^verbatim>\<open>choices\<close>.
  That list has eight entries: \<^verbatim>\<open>Fixed\<close>, which the dispatch two lines above the
  \<^verbatim>\<open>raise\<close> accepts, is not among them. On the name \<^verbatim>\<open>notamodel\<close> the message is
  the one below, and \<^verbatim>\<open>Fixed\<close> does not occur in it.
\<close>

theorem unrecognized_message_omits_fixed:
  "fst (sample lib derive \<lparr>mass_model = ''notamodel'', number_of_samples = n, parameters = d\<rparr> s)
     = Inl (ValueError (''notamodel is not implemented in gwpopulation. Please choose from ''
          @ ''['PowerLaw+Peak', 'MultiPeak', 'BrokenPowerLaw', 'UniformSecondary', ''
          @ '''DoubleGaussian', 'LogNormal', 'PowerLawDipBreak', 'PowerLaw']''))
   \<and> \<not> is_substring ''Fixed''
        (''notamodel is not implemented in gwpopulation. Please choose from ''
          @ ''['PowerLaw+Peak', 'MultiPeak', 'BrokenPowerLaw', 'UniformSecondary', ''
          @ '''DoubleGaussian', 'LogNormal', 'PowerLawDipBreak', 'PowerLaw']'')"
proof -
  have "\<not> recognized ''notamodel''"
    by (simp add: recognized_def)
  then have "sample lib derive \<lparr>mass_model = ''notamodel'', number_of_samples = n, parameters = d\<rparr> s
     = (Inl (unrecognized \<lparr>mass_model = ''notamodel'', number_of_samples = n, parameters = d\<rparr>),
        log_fallback \<lparr>mass_model = ''notamodel'', number_of_samples = n, parameters = d\<rparr>
          (s\<lparr>samples := Map.empty\<rparr>))"
    by (simp add: unrecognized_raises)
  then show ?thesis
    by (simp add: unrecognized_def str_list_def choices_def repr_str_def)
qed

section \<open>The two parameter sets of the first tier\<close>

lemma mass_ratio_parameters_restrict:
  "mass_ratio_parameters d = d |` {''beta'', ''mmin'', ''delta_m''}"
  by (auto simp add: mass_ratio_parameters_def restrict_map_def fun_eq_iff)

text \<open>
  Claim C2. The mass-ratio parameters are the entries under \<^verbatim>\<open>beta\<close>,
  \<^verbatim>\<open>mmin\<close> and \<^verbatim>\<open>delta_m\<close>, as the lemma above says. The mass parameters are not
  all entries but \<^verbatim>\<open>beta\<close>: the test \<^verbatim>\<open>param not in ('beta')\<close> is a substring test,
  so a key such as \<^verbatim>\<open>eta\<close> is dropped as well. On the dictionary with the keys
  \<^verbatim>\<open>alpha\<close>, \<^verbatim>\<open>eta\<close> and \<^verbatim>\<open>beta\<close> only \<^verbatim>\<open>alpha\<close> is passed on.
\<close>

theorem mass_parameters_drops_eta:
  "mass_parameters [''alpha'' \<mapsto> 3, ''eta'' \<mapsto> 2, ''beta'' \<mapsto> 1] = [''alpha'' \<mapsto> 3]
   \<and> mass_parameters [''alpha'' \<mapsto> 3, ''eta'' \<mapsto> 2, ''beta'' \<mapsto> 1]
       \<noteq> [''alpha'' \<mapsto> 3, ''eta'' \<mapsto> 2, ''beta'' \<mapsto> 1] |` (- {''beta''})"
proof -
  have a: "mass_parameters [''alpha'' \<mapsto> 3, ''eta'' \<mapsto> 2, ''beta'' \<mapsto> 1] = [''alpha'' \<mapsto> 3]"
    by (auto simp add: mass_parameters_def fun_eq_iff)
  have "([''alpha'' \<mapsto> 3, ''eta'' \<mapsto> 2, ''beta'' \<mapsto> 1] |` (- {''beta''})) ''eta'' = Some (2 :: real)"
    by simp
  moreover have "[''alpha'' \<mapsto> (3 :: real)] ''eta'' = None"
    by simp
  ultimately have "[''alpha'' \<mapsto> 3]
      \<noteq> [''alpha'' \<mapsto> 3, ''eta'' \<mapsto> 2, ''beta'' \<mapsto> (1 :: real)] |` (- {''beta''})"
    by (metis option.distinct(1))
  with a show ?thesis by simp
qed

section \<open>The fixed model\<close>

lemma sample_fixed_run:
  assumes "parameters self ''primary_mass'' = Some pm" "parameters self ''mass_ratio'' = Some q"
    "0 \<le> number_of_samples self"
  shows "sample_fixed self s =
     (None, s\<lparr>samples := (samples s)
        (''mass_1_source'' \<mapsto> replicate (nat (number_of_samples self)) pm,
         ''mass_2_source'' \<mapsto>
            replicate (nat (number_of_samples self)) (pm * (if q < 1 then q else 1 / q)))\<rparr>)"
  using assms
  by (simp add: sample_fixed_def seq_def eval_def store_def ones_def getitem_Some Let_def)

text \<open>
  Claim C3. For the fixed model with sample count \<open>n\<close>, \<^verbatim>\<open>sample()\<close> sets
  \<^verbatim>\<open>mass_1_source\<close> to \<open>n\<close> copies of \<^verbatim>\<open>primary_mass\<close> and \<^verbatim>\<open>mass_2_source\<close> to
  \<open>n\<close> copies of \<^verbatim>\<open>primary_mass\<close> times the mass ratio when the ratio is at most 1,
  and times its reciprocal when the ratio exceeds 1. With \<^verbatim>\<open>primary_mass = 30\<close>
  every entry of \<^verbatim>\<open>mass_2_source\<close> is 15 for the ratio 0.5 and for the ratio 2.
\<close>

theorem fixed_model_masses:
  assumes "selects_fixed (mass_model self)"
    "parameters self ''primary_mass'' = Some pm" "parameters self ''mass_ratio'' = Some q"
    "0 \<le> number_of_samples self"
  shows "fst (sample_try lib self s) = None
       \<and> samples (snd (sample_try lib self s)) ''mass_1_source''
           = Some (replicate (nat (number_of_samples self)) pm)
       \<and> samples (snd (sample_try lib self s)) ''mass_2_source''
           = Some (replicate (nat (number_of_samples self)) (pm * (if q \<le> 1 then q else 1 / q)))"
proof -
  from assms(1) have nt: "no_tier1 (mass_model self)"
    and br: "tier2_dispatch lib self = sample_fixed self"
    by (simp_all add: selects_fixed_def tier2_dispatch_def)
  have eq: "(if q < 1 then q else 1 / q) = (if q \<le> 1 then q else 1 / q)"
    by simp
  show ?thesis
    using assms(2-4)
    by (simp add: sample_try_no_tier1 [OF nt] br sample_fixed_run eq)
qed

theorem fixed_model_masses_witness:
  "samples (snd (sample_try test_library
       (test_mass ''fixed'' [''primary_mass'' \<mapsto> 30, ''mass_ratio'' \<mapsto> 1 / 2]) test_state))
     ''mass_2_source'' = Some [15, 15, 15]
   \<and> samples (snd (sample_try test_library
       (test_mass ''fixed'' [''primary_mass'' \<mapsto> 30, ''mass_ratio'' \<mapsto> 2]) test_state))
     ''mass_2_source'' = Some [15, 15, 15]"
  using fixed_model_masses [of "test_mass ''fixed'' [''primary_mass'' \<mapsto> 30, ''mass_ratio'' \<mapsto> 1 / 2]"
        30 "1 / 2" test_library test_state]
    fixed_model_masses [of "test_mass ''fixed'' [''primary_mass'' \<mapsto> 30, ''mass_ratio'' \<mapsto> 2]"
        30 2 test_library test_state]
  by (simp add: selects_fixed_def no_tier1_def test_mass_def numeral_3_eq_3)

section \<open>Grids and mask assignment\<close>

lemma length_linspace [simp]: "length (linspace a b n) = n"
  by (simp add: linspace_def)

lemma nth_linspace:
  "i < n \<Longrightarrow> linspace a b n ! i = real i * ((b - a) / real (n - 1)) + a"
  by (simp add: linspace_def)

lemma linspace_nonempty: "0 < n \<Longrightarrow> linspace a b n \<noteq> []"
  by (simp add: linspace_def)

lemma linspace_5001:
  "linspace a b 5001 ! 0 = a" "linspace a b 5001 ! 5000 = b"
  "i < 5001 \<Longrightarrow> linspace a b 5001 ! i = real i * ((b - a) / 5000) + a"
proof -
  show "linspace a b 5001 ! 0 = a"
    by (simp add: nth_linspace)
  have "(5000 * b - 5000 * a) / 5000 + a = b"
    by (simp add: diff_divide_distrib)
  then show "linspace a b 5001 ! 5000 = b"
    by (simp add: nth_linspace)
  show "i < 5001 \<Longrightarrow> linspace a b 5001 ! i = real i * ((b - a) / 5000) + a"
    by (simp add: nth_linspace)
qed

lemma interped_nonempty:
  assumes "xx \<noteq> []"
  shows "interped lib xx yy k = make_prior lib (Interped xx yy (Min (set xx)) (Max (set xx))) k"
proof -
  from assms obtain x xs where xx: "xx = x # xs" by (cases xx) auto
  have "amin xx = Inr (Min (set xx))" "amax xx = Inr (Max (set xx))"
    using Min.set_eq_fold [of x xs] Max.set_eq_fold [of x xs]
    by (simp_all add: xx amin_def amax_def)
  then show ?thesis by (simp add: interped_def eval_Inr)
qed

lemma getitem_mask_map: "getitem_mask xs (map P xs) = Inr (filter P xs)"
proof -
  have "map fst (filter snd (zip xs (map P xs))) = filter P xs"
    by (induction xs) simp_all
  then show ?thesis by (simp add: getitem_mask_def)
qed

lemma put_mask_map:
  "put_mask (map h xs) (map P xs) (map f (filter P xs)) = map (\<lambda>x. if P x then f x else h x) xs"
  by (induction xs) simp_all

lemma count_mask: "length (filter id (map P xs)) = length (filter P xs)"
  by (induction xs) simp_all

lemma setitem_mask_map:
  "setitem_mask (map h xs) (map P xs) (map f (filter P xs))
     = Inr (map (\<lambda>x. if P x then f x else h x) xs)"
  by (simp add: setitem_mask_def count_mask put_mask_map)

section \<open>The double Gaussian\<close>

lemma sample_doublegaussian_run:
  assumes "parameters self ''mmin'' = Some mmin" "parameters self ''mmax'' = Some mmax"
    "parameters self ''mu_1'' = Some mu_1" "parameters self ''sigma_1'' = Some sigma_1"
    "parameters self ''mu_2'' = Some mu_2" "parameters self ''sigma_2'' = Some sigma_2"
    "parameters self ''breaking_fraction'' = Some bf"
    "new_prior lib (TruncatedGaussian mu_1 sigma_1 mmin mmax) = None"
    "new_prior lib (TruncatedGaussian mu_2 sigma_2 mmin mmax) = None"
  shows "sample_doublegaussian lib self =
     make_prior lib
       (Interped (linspace mmin mmax 5001)
          (map (mixture_density lib mmin mmax mu_1 sigma_1 mu_2 sigma_2 bf) (linspace mmin mmax 5001))
          (Min (set (linspace mmin mmax 5001))) (Max (set (linspace mmin mmax 5001))))
       (\<lambda>pr. two_draws lib pr (number_of_samples self))"
proof -
  have mix: "(\<lambda>m. prob lib (TruncatedGaussian mu_1 sigma_1 mmin mmax) m * bf
                + prob lib (TruncatedGaussian mu_2 sigma_2 mmin mmax) m * (1 - bf))
             = mixture_density lib mmin mmax mu_1 sigma_1 mu_2 sigma_2 bf"
    by (rule ext) (simp add: mixture_density_def mult.commute)
  show ?thesis
    using assms
    by (simp add: sample_doublegaussian_def getitem_Some eval_Inr Let_def make_prior_ok comp_def
          broadcast_maps mix interped_nonempty linspace_nonempty seq_two_draws)
qed

text \<open>
  Claim C5. For the doublegaussian model the grid is \<^verbatim>\<open>linspace(mmin, mmax, 5001)\<close>:
  5001 points, linear from \<open>mmin\<close> to \<open>mmax\<close>. The density handed to the interpolated
  sampler is, at every grid point \<open>m\<close>, \<open>breaking_fraction\<close> times the density of the
  Gaussian with \<open>mu_1\<close>, \<open>sigma_1\<close> truncated to \<open>[mmin, mmax]\<close> plus
  \<open>1 - breaking_fraction\<close> times that of the Gaussian with \<open>mu_2\<close>, \<open>sigma_2\<close>
  truncated to the same bounds. One sampler is built from it, and \<^verbatim>\<open>mass_1_source\<close> and
  \<^verbatim>\<open>mass_2_source\<close> are two successive draws from that sampler.
\<close>

theorem doublegaussian_mixture:
  fixes lib :: "'g library"
  defines "grid \<equiv> \<lambda>lo hi. linspace lo hi 5001"
  assumes "selects_doublegaussian (mass_model self)"
    and "parameters self ''mmin'' = Some mmin" "parameters self ''mmax'' = Some mmax"
    and "parameters self ''mu_1'' = Some mu_1" "parameters self ''sigma_1'' = Some sigma_1"
    and "parameters self ''mu_2'' = Some mu_2" "parameters self ''sigma_2'' = Some sigma_2"
    and "parameters self ''breaking_fraction'' = Some bf"
    and "new_prior lib (TruncatedGaussian mu_1 sigma_1 mmin mmax) = None"
    and "new_prior lib (TruncatedGaussian mu_2 sigma_2 mmin mmax) = None"
  shows "length (grid mmin mmax) = 5001 \<and> grid mmin mmax ! 0 = mmin \<and> grid mmin mmax ! 5000 = mmax
     \<and> (\<forall>i<5001. grid mmin mmax ! i = real i * ((mmax - mmin) / 5000) + mmin)
     \<and> (\<forall>i<5001.
           map (mixture_density lib mmin mmax mu_1 sigma_1 mu_2 sigma_2 bf) (grid mmin mmax) ! i
           = bf * prob lib (TruncatedGaussian mu_1 sigma_1 mmin mmax) (grid mmin mmax ! i)
             + (1 - bf) * prob lib (TruncatedGaussian mu_2 sigma_2 mmin mmax) (grid mmin mmax ! i))
     \<and> sample_try lib self s =
         make_prior lib
           (Interped (grid mmin mmax)
              (map (mixture_density lib mmin mmax mu_1 sigma_1 mu_2 sigma_2 bf) (grid mmin mmax))
              (Min (set (grid mmin mmax))) (Max (set (grid mmin mmax))))
           (\<lambda>pr. two_draws lib pr (number_of_samples self)) (log_fallback self s)"
proof -
  from assms(2) have nt: "no_tier1 (mass_model self)"
    and br: "tier2_dispatch lib self = sample_doublegaussian lib self"
    by (simp_all add: selects_doublegaussian_def tier2_dispatch_def)
  have run: "sample_try lib self s =
         make_prior lib
           (Interped (grid mmin mmax)
              (map (mixture_density lib mmin mmax mu_1 sigma_1 mu_2 sigma_2 bf) (grid mmin mmax))
              (Min (set (grid mmin mmax))) (Max (set (grid mmin mmax))))
           (\<lambda>pr. two_draws lib pr (number_of_samples self)) (log_fallback self s)"
    unfolding grid_def sample_try_no_tier1 [OF nt] br
    using assms(3-11) by (simp add: sample_doublegaussian_run)
  show ?thesis
    using run by (simp add: grid_def linspace_5001 mixture_density_def)
qed

theorem doublegaussian_mixture_witness:
  "linspace 5 50 5001 ! 5000 = 50
   \<and> samples (snd (sample_try test_library (test_mass ''doublegaussian'' test_gaussian_parameters)
         test_state)) ''mass_1_source'' = Some [0, 0, 0]
   \<and> samples (snd (sample_try test_library (test_mass ''doublegaussian'' test_gaussian_parameters)
         test_state)) ''mass_2_source'' = Some [1, 1, 1]"
  using doublegaussian_mixture [of "test_mass ''doublegaussian'' test_gaussian_parameters"
      5 50 10 2 30 4 "1 / 4" test_library test_state]
  by (simp add: selects_doublegaussian_def no_tier1_def test_mass_def test_gaussian_parameters_def
        test_library_def make_prior_def two_draws_def test_draw_def log_fallback_def test_state_def
        numeral_3_eq_3)

section \<open>The dip model\<close>

lemma dip_segment_map:
  assumes "d ''A'' = Some A" "d ''gamma_low'' = Some gl" "d ''eta_low'' = Some el"
    "d ''gamma_high'' = Some gh" "d ''eta_high'' = Some eh"
    "d ''mmax'' = Some mmax" "d ''n'' = Some n"
  shows "dip_segment lib pr mass (map P mass) d =
     Inr (map (\<lambda>v. prob lib pr v * notch A gl el gh eh v * lowpass mmax n v) (filter P mass))"
proof -
  have nf: "notch_filter val d = Inr (map (notch A gl el gh eh) val)" for val
    using assms(1-5) by (simp add: notch_filter_map notch_def [abs_def])
  have lp: "low_pass_filter val d = Inr (map (lowpass mmax n) val)" for val
    using assms(6-7) by (simp add: low_pass_filter_map lowpass_def [abs_def])
  show ?thesis
    by (simp add: dip_segment_def getitem_mask_map and_then_Inr nf lp broadcast_maps)
qed

lemma sample_dip_run:
  assumes keys: "\<forall>k \<in> set dip_keys. parameters self k \<noteq> None"
    and p1: "new_prior lib (PowerLaw (the (parameters self ''alpha_1''))
               (the (parameters self ''mmin'')) (the (parameters self ''gamma_high''))) = None"
    and p2: "new_prior lib (PowerLaw (the (parameters self ''alpha_2''))
               (the (parameters self ''mmin'')) (the (parameters self ''gamma_high''))) = None"
  shows "sample_dip lib self =
     make_prior lib
       (Interped (linspace (the (parameters self ''mmin'')) (the (parameters self ''mmax'')) 5001)
          (map (dip_density lib (parameters self))
             (linspace (the (parameters self ''mmin'')) (the (parameters self ''mmax'')) 5001))
          (Min (set (linspace (the (parameters self ''mmin'')) (the (parameters self ''mmax'')) 5001)))
          (Max (set (linspace (the (parameters self ''mmin'')) (the (parameters self ''mmax'')) 5001))))
       (\<lambda>pr. two_draws lib pr (number_of_samples self))"
proof -
  define d where "d = parameters self"
  from keys obtain mmin mmax a1 a2 gl gh el eh A n where k:
    "d ''mmin'' = Some mmin" "d ''mmax'' = Some mmax" "d ''alpha_1'' = Some a1"
    "d ''alpha_2'' = Some a2" "d ''gamma_low'' = Some gl" "d ''gamma_high'' = Some gh"
    "d ''eta_low'' = Some el" "d ''eta_high'' = Some eh" "d ''A'' = Some A" "d ''n'' = Some n"
    unfolding dip_keys_def d_def by auto
  define grid where "grid = linspace mmin mmax 5001"
  have seg: "dip_segment lib pr grid (map P grid) d =
     Inr (map (\<lambda>v. prob lib pr v * notch A gl el gh eh v * lowpass mmax n v) (filter P grid))"
    for pr P
    using k by (simp add: dip_segment_map)
  have w1: "setitem_mask (zeros_like grid) (map (\<lambda>m. m \<le> gh) grid)
       (map (\<lambda>v. prob lib (PowerLaw a1 mmin gh) v * notch A gl el gh eh v * lowpass mmax n v)
          (filter (\<lambda>m. m \<le> gh) grid))
     = Inr (map (\<lambda>m. if m \<le> gh
              then prob lib (PowerLaw a1 mmin gh) m * notch A gl el gh eh m * lowpass mmax n m
              else 0) grid)"
    unfolding zeros_like_def by (rule setitem_mask_map)
  have w2: "setitem_mask
       (map (\<lambda>m. if m \<le> gh
              then prob lib (PowerLaw a1 mmin gh) m * notch A gl el gh eh m * lowpass mmax n m
              else 0) grid)
       (map (\<lambda>m. m > gh) grid)
       (map (\<lambda>v. prob lib (PowerLaw a2 mmin gh) v * notch A gl el gh eh v * lowpass mmax n v)
          (filter (\<lambda>m. m > gh) grid))
     = Inr (map (dip_density lib d) grid)"
  proof -
    have "(\<lambda>m. if gh < m
             then prob lib (PowerLaw a2 mmin gh) m * notch A gl el gh eh m * lowpass mmax n m
             else if m \<le> gh
              then prob lib (PowerLaw a1 mmin gh) m * notch A gl el gh eh m * lowpass mmax n m
              else 0) = dip_density lib d"
      by (rule ext) (simp add: dip_density_def k Let_def mult.assoc)
    then show ?thesis
      by (simp add: setitem_mask_map)
  qed
  have "sample_dip lib self =
     make_prior lib (Interped grid (map (dip_density lib d) grid) (Min (set grid)) (Max (set grid)))
       (\<lambda>pr. two_draws lib pr (number_of_samples self))"
    using k p1 p2 unfolding d_def [symmetric]
    by (simp add: sample_dip_def d_def [symmetric] getitem_Some eval_Inr Let_def make_prior_ok
          grid_def [symmetric] seg w1 w2 interped_nonempty linspace_nonempty seq_two_draws)
  then show ?thesis
    using k by (simp add: grid_def d_def)
qed

lemma sample_try_dip:
  assumes "selects_dip (mass_model self)"
    and "\<forall>k \<in> set dip_keys. parameters self k \<noteq> None"
    and "new_prior lib (PowerLaw (the (parameters self ''alpha_1''))
               (the (parameters self ''mmin'')) (the (parameters self ''gamma_high''))) = None"
    and "new_prior lib (PowerLaw (the (parameters self ''alpha_2''))
               (the (parameters self ''mmin'')) (the (parameters self ''gamma_high''))) = None"
  shows "sample_try lib self s =
     make_prior lib
       (Interped (linspace (the (parameters self ''mmin'')) (the (parameters self ''mmax'')) 5001)
          (map (dip_density lib (parameters self))
             (linspace (the (parameters self ''mmin'')) (the (parameters self ''mmax'')) 5001))
          (Min (set (linspace (the (parameters self ''mmin'')) (the (parameters self ''mmax'')) 5001)))
          (Max (set (linspace (the (parameters self ''mmin'')) (the (parameters self ''mmax'')) 5001))))
       (\<lambda>pr. two_draws lib pr (number_of_samples self)) (log_fallback self s)"
proof -
  from assms(1) have nt: "no_tier1 (mass_model self)"
    and br: "tier2_dispatch lib self = sample_dip lib self"
    by (simp_all add: selects_dip_def tier2_dispatch_def)
  show ?thesis
    unfolding sample_try_no_tier1 [OF nt] br
    using assms(2-4) by (simp add: sample_dip_run)
qed

text \<open>
  Claim C6, as stated, fails on names that contain \<^verbatim>\<open>dip\<close> together with a piece
  the dispatch tests earlier: \<^verbatim>\<open>lognormaldip\<close> takes the log-normal branch, and with
  all ten \<^verbatim>\<open>dip\<close> parameters present \<^verbatim>\<open>sample()\<close> ends in \<^verbatim>\<open>KeyError('mu')\<close>
  without building any grid.
\<close>

theorem lognormaldip_takes_lognormal_branch:
  "is_substring ''dip'' (mass_model (test_mass ''lognormaldip'' test_dip_parameters))
   \<and> list_all (\<lambda>k. parameters (test_mass ''lognormaldip'' test_dip_parameters) k \<noteq> None) dip_keys
   \<and> fst (sample_try test_library (test_mass ''lognormaldip'' test_dip_parameters) test_state)
       = Some (KeyError ''mu'')
   \<and> fst (sample test_library test_derive (test_mass ''lognormaldip'' test_dip_parameters)
         test_state) = Inl (KeyError ''mu'')"
  by (simp add: sample_def sample_try_def tier1_def select_model_def tier2_def tier2_dispatch_def
        sample_lognormal_def getitem_def test_library_def test_mass_def test_state_def eval_def
        raise_def log_fallback_def test_dip_parameters_def dip_keys_def)

text \<open>
  Claim C6, amended. For every name that contains \<^verbatim>\<open>dip\<close> and none of
  \<^verbatim>\<open>uniformsecondary\<close>, \<^verbatim>\<open>doublegaussian\<close>, \<^verbatim>\<open>lognormal\<close>,
  \<^verbatim>\<open>loggaussian\<close>, whenever the first tier does not return, the grid is
  \<^verbatim>\<open>linspace(mmin, mmax, 5001)\<close>. At every grid point at or below \<open>gamma_high\<close> the
  combined density is the power law with exponent \<open>alpha_1\<close> and bounds \<open>mmin\<close>,
  \<open>gamma_high\<close> times the notch filter times the low-pass filter; at every grid point
  above \<open>gamma_high\<close> it is the power law with exponent \<open>alpha_2\<close> and the same bounds
  times the same two filters. One sampler is built from grid and density, and both mass
  fields are successive draws from it.
\<close>

theorem dip_combined_density:
  fixes lib :: "'g library"
  defines "d \<equiv> \<lambda>self key. the (parameters self key)"
  defines "grid \<equiv> \<lambda>self. linspace (d self ''mmin'') (d self ''mmax'') 5001"
  defines "dens \<equiv> \<lambda>lib self. map (dip_density lib (parameters self)) (grid self)"
  defines "filters \<equiv> \<lambda>self m.
             notch (d self ''A'') (d self ''gamma_low'') (d self ''eta_low'')
               (d self ''gamma_high'') (d self ''eta_high'') m
             * lowpass (d self ''mmax'') (d self ''n'') m"
  assumes "dip_branch (mass_model self)"
    and "fst (tier1 lib self s) = Some e"
    and "\<forall>k \<in> set dip_keys. parameters self k \<noteq> None"
    and "new_prior lib (PowerLaw (d self ''alpha_1'') (d self ''mmin'') (d self ''gamma_high'')) = None"
    and "new_prior lib (PowerLaw (d self ''alpha_2'') (d self ''mmin'') (d self ''gamma_high'')) = None"
  shows "length (grid self) = 5001 \<and> grid self ! 0 = d self ''mmin''
     \<and> grid self ! 5000 = d self ''mmax''
     \<and> (\<forall>i<5001. grid self ! i
           = real i * ((d self ''mmax'' - d self ''mmin'') / 5000) + d self ''mmin'')
     \<and> (\<forall>i<5001.
          (grid self ! i \<le> d self ''gamma_high'' \<longrightarrow>
             dens lib self ! i
             = prob lib (PowerLaw (d self ''alpha_1'') (d self ''mmin'') (d self ''gamma_high''))
                 (grid self ! i) * filters self (grid self ! i))
          \<and> (d self ''gamma_high'' < grid self ! i \<longrightarrow>
             dens lib self ! i
             = prob lib (PowerLaw (d self ''alpha_2'') (d self ''mmin'') (d self ''gamma_high''))
                 (grid self ! i) * filters self (grid self ! i)))
     \<and> sample_try lib self s =
         make_prior lib
           (Interped (grid self) (dens lib self) (Min (set (grid self))) (Max (set (grid self))))
           (\<lambda>pr. two_draws lib pr (number_of_samples self))
           (log_fallback self (snd (tier1 lib self s)))"
proof -
  from assms(5) have br: "tier2_dispatch lib self = sample_dip lib self"
    by (simp add: dip_branch_def tier2_dispatch_def)
  have run: "sample_try lib self s =
         make_prior lib
           (Interped (grid self) (dens lib self) (Min (set (grid self))) (Max (set (grid self))))
           (\<lambda>pr. two_draws lib pr (number_of_samples self))
           (log_fallback self (snd (tier1 lib self s)))"
    unfolding sample_try_raised [OF assms(6)] br grid_def dens_def d_def
    using assms(7-9) unfolding d_def by (simp add: sample_dip_run)
  have pt: "dens lib self ! i = dip_density lib (parameters self) (grid self ! i)" if "i < 5001" for i
    using that by (simp add: dens_def grid_def)
  show ?thesis
    using run
    by (simp add: pt)
       (simp add: grid_def linspace_5001 dip_density_def filters_def d_def Let_def)
qed

theorem dip_combined_density_witness:
  "fst (tier1 test_library (test_mass ''brokenpowerlawdip'' test_dip_parameters) test_state)
     = Some (LibraryError ''No module named gwpopulation'')
   \<and> linspace 5 100 5001 ! 0 = 5
   \<and> samples (snd (sample_try test_library (test_mass ''brokenpowerlawdip'' test_dip_parameters)
         test_state)) ''mass_1_source'' = Some [0, 0, 0]
   \<and> samples (snd (sample_try test_library (test_mass ''brokenpowerlawdip'' test_dip_parameters)
         test_state)) ''mass_2_source'' = Some [1, 1, 1]"
proof -
  have a: "dip_branch (mass_model (test_mass ''brokenpowerlawdip'' test_dip_parameters))"
    by (simp add: dip_branch_def test_mass_def)
  have t: "tier1 test_library (test_mass ''brokenpowerlawdip'' test_dip_parameters) test_state
     = (Some (LibraryError ''No module named gwpopulation''), test_state)"
    by (simp add: tier1_def select_model_def test_library_def test_mass_def eval_def)
  then have t': "fst (tier1 test_library (test_mass ''brokenpowerlawdip'' test_dip_parameters)
      test_state) = Some (LibraryError ''No module named gwpopulation'')"
    by simp
  have b: "\<forall>k \<in> set dip_keys.
      parameters (test_mass ''brokenpowerlawdip'' test_dip_parameters) k \<noteq> None"
    by (simp add: dip_keys_def test_mass_def test_dip_parameters_def)
  have c: "new_prior test_library p = None" for p
    by (simp add: test_library_def)
  show ?thesis
    using dip_combined_density [OF a t' b c c] t
    by (simp add: test_mass_def test_dip_parameters_def test_library_def make_prior_def
          two_draws_def test_draw_def log_fallback_def test_state_def numeral_3_eq_3)
qed

lemma dip_density_above:
  assumes "bounded_power_law lib" "the (d ''gamma_high'') < m"
  shows "dip_density lib d m = 0"
  using assms by (simp add: dip_density_def bounded_power_law_def Let_def)

lemma dip_density_support:
  assumes "bounded_power_law lib" "dip_density lib d m \<noteq> 0"
  shows "the (d ''mmin'') \<le> m \<and> m \<le> the (d ''gamma_high'')"
proof -
  from assms have le: "m \<le> the (d ''gamma_high'')"
    using dip_density_above [of lib d m] by force
  have "\<not> m < the (d ''mmin'')"
  proof
    assume "m < the (d ''mmin'')"
    with assms(1) have "prob lib (PowerLaw (the (d ''alpha_1'')) (the (d ''mmin''))
        (the (d ''gamma_high''))) m = 0"
      by (simp add: bounded_power_law_def)
    with le assms(2) show False
      by (simp add: dip_density_def Let_def)
  qed
  with le show ?thesis by simp
qed

text \<open>
  Claim C9. When the library's bounded power law has density zero outside its bounds,
  the combined density of the \<^verbatim>\<open>dip\<close> branch is zero at every grid point above
  \<open>gamma_high\<close>: the upper segment is evaluated with maximum \<open>gamma_high\<close> only at
  points beyond it. Every grid point with a nonzero density lies in
  \<open>[mmin, gamma_high]\<close>, and for \<open>gamma_high < mmax\<close> the last grid point is such a
  point above \<open>gamma_high\<close> with density zero.
\<close>

theorem dip_upper_segment_zero:
  fixes lib :: "'g library"
  defines "d \<equiv> \<lambda>self key. the (parameters self key)"
  defines "grid \<equiv> \<lambda>self. linspace (d self ''mmin'') (d self ''mmax'') 5001"
  defines "dens \<equiv> \<lambda>lib self. map (dip_density lib (parameters self)) (grid self)"
  assumes "selects_dip (mass_model self)"
    and "\<forall>k \<in> set dip_keys. parameters self k \<noteq> None"
    and "new_prior lib (PowerLaw (d self ''alpha_1'') (d self ''mmin'') (d self ''gamma_high'')) = None"
    and "new_prior lib (PowerLaw (d self ''alpha_2'') (d self ''mmin'') (d self ''gamma_high'')) = None"
    and "bounded_power_law lib"
  shows "sample_try lib self s =
         make_prior lib
           (Interped (grid self) (dens lib self) (Min (set (grid self))) (Max (set (grid self))))
           (\<lambda>pr. two_draws lib pr (number_of_samples self)) (log_fallback self s)
     \<and> (\<forall>i<5001. d self ''gamma_high'' < grid self ! i \<longrightarrow> dens lib self ! i = 0)
     \<and> (\<forall>i<5001. dens lib self ! i \<noteq> 0 \<longrightarrow>
           d self ''mmin'' \<le> grid self ! i \<and> grid self ! i \<le> d self ''gamma_high'')
     \<and> (d self ''gamma_high'' < d self ''mmax'' \<longrightarrow>
           d self ''gamma_high'' < grid self ! 5000 \<and> dens lib self ! 5000 = 0)"
proof -
  have run: "sample_try lib self s =
         make_prior lib
           (Interped (grid self) (dens lib self) (Min (set (grid self))) (Max (set (grid self))))
           (\<lambda>pr. two_draws lib pr (number_of_samples self)) (log_fallback self s)"
    unfolding grid_def dens_def d_def
    using assms(4-7) unfolding d_def by (rule sample_try_dip)
  have pt: "dens lib self ! i = dip_density lib (parameters self) (grid self ! i)" if "i < 5001" for i
    using that by (simp add: dens_def grid_def)
  have zero: "dens lib self ! i = 0" if "i < 5001" "d self ''gamma_high'' < grid self ! i" for i
    using that assms(8) by (simp add: pt dip_density_above d_def)
  have supp: "d self ''mmin'' \<le> grid self ! i \<and> grid self ! i \<le> d self ''gamma_high''"
    if "i < 5001" "dens lib self ! i \<noteq> 0" for i
    using that assms(8) dip_density_support [of lib "parameters self" "grid self ! i"]
    by (simp add: pt d_def)
  have last: "grid self ! 5000 = d self ''mmax''"
    by (simp add: grid_def linspace_5001)
  show ?thesis
    using run zero supp last by auto
qed

theorem dip_upper_segment_zero_witness:
  "the (test_dip_parameters ''gamma_high'') < linspace 5 100 5001 ! 5000
   \<and> map (dip_density test_library test_dip_parameters) (linspace 5 100 5001) ! 5000 = 0"
proof -
  have a: "selects_dip (mass_model (test_mass ''powerlawdipbreak'' test_dip_parameters))"
    by (simp add: selects_dip_def no_tier1_def test_mass_def)
  have b: "\<forall>k \<in> set dip_keys.
      parameters (test_mass ''powerlawdipbreak'' test_dip_parameters) k \<noteq> None"
    by (simp add: dip_keys_def test_mass_def test_dip_parameters_def)
  have c: "new_prior test_library p = None" for p
    by (simp add: test_library_def)
  have e: "bounded_power_law test_library"
    by (simp add: bounded_power_law_def test_library_def)
  have f: "the (parameters (test_mass ''powerlawdipbreak'' test_dip_parameters) key)
      = the (test_dip_parameters key)" for key
    by (simp add: test_mass_def)
  have g: "the (test_dip_parameters ''gamma_high'') < the (test_dip_parameters ''mmax'')"
    "the (test_dip_parameters ''mmin'') = 5" "the (test_dip_parameters ''mmax'') = 100"
    by (simp_all add: test_dip_parameters_def)
  show ?thesis
    using dip_upper_segment_zero [OF a b c c e, of test_state] g
    by (simp add: f test_mass_def)
qed

section \<open>What a returning run leaves in the dictionary\<close>













section \<open>When a run returns\<close>















section \<open>First-tier names in the second tier\<close>

lemma sample_powerlaw_run:
  assumes "parameters self ''alpha'' = Some alpha" "parameters self ''mmin'' = Some mmin"
    "parameters self ''mmax'' = Some mmax"
  shows "sample_powerlaw lib self =
     make_prior lib (PowerLaw alpha mmin mmax) (\<lambda>pr. two_draws lib pr (number_of_samples self))"
  using assms by (simp add: sample_powerlaw_def eval_Inr getitem_Some seq_two_draws)

lemma contains_powerlaw:
  assumes "is_substring ''powerlawpeak'' name \<or> is_substring ''brokenpowerlaw'' name"
  shows "is_substring ''powerlaw'' name"
proof -
  have "is_substring ''powerlaw'' ''powerlawpeak''" "is_substring ''powerlaw'' ''brokenpowerlaw''"
    by simp_all
  with assms show ?thesis
    by (blast intro: is_substring_trans)
qed

text \<open>
  Claim C10, as stated, fails on \<^verbatim>\<open>multipeak\<close>: the second tier has no branch for
  it, so with \<^verbatim>\<open>gwpopulation\<close> missing the name \<^verbatim>\<open>multipeak\<close> ends in the
  unrecognized-model error; and \<^verbatim>\<open>brokenpowerlaw\<close> with its own parameters ends in
  \<^verbatim>\<open>KeyError('alpha')\<close>, not in draws.
\<close>

theorem multipeak_reaches_unrecognized_error:
  "is_substring ''multipeak'' (mass_model (test_mass ''multipeak'' Map.empty))
   \<and> fst (tier1 test_library (test_mass ''multipeak'' Map.empty) test_state)
       = Some (LibraryError ''No module named gwpopulation'')
   \<and> fst (sample test_library test_derive (test_mass ''multipeak'' Map.empty) test_state)
       = Inl (unrecognized (test_mass ''multipeak'' Map.empty))
   \<and> is_substring ''brokenpowerlaw''
        (mass_model (test_mass ''brokenpowerlaw'' [''alpha_1'' \<mapsto> 2, ''alpha_2'' \<mapsto> 3]))
   \<and> fst (sample test_library test_derive
        (test_mass ''brokenpowerlaw'' [''alpha_1'' \<mapsto> 2, ''alpha_2'' \<mapsto> 3]) test_state)
       = Inl (KeyError ''alpha'')"
  by (simp add: sample_def sample_try_def tier1_def select_model_def tier2_def tier2_dispatch_def
        sample_powerlaw_def getitem_def test_library_def test_mass_def test_state_def eval_def
        raise_def log_fallback_def)

text \<open>
  Claim C10, amended. A name that contains \<^verbatim>\<open>powerlawpeak\<close> or
  \<^verbatim>\<open>brokenpowerlaw\<close> and whose first tier raises runs one of the sampling branches
  of the second tier, not the unrecognized-model error. When the name contains none of
  \<^verbatim>\<open>uniformsecondary\<close>, \<^verbatim>\<open>doublegaussian\<close>, \<^verbatim>\<open>lognormal\<close>,
  \<^verbatim>\<open>loggaussian\<close>, \<^verbatim>\<open>dip\<close> and the parameters hold \<open>alpha\<close>, \<open>mmin\<close> and
  \<open>mmax\<close>, both masses are successive draws from the power law with exponent \<open>alpha\<close>
  on \<open>[mmin, mmax]\<close>.
\<close>

theorem powerlaw_names_fall_back:
  assumes "is_substring ''powerlawpeak'' (mass_model self)
           \<or> is_substring ''brokenpowerlaw'' (mass_model self)"
    and "fst (tier1 lib self s) = Some e"
  shows "(sample_try lib self s
            = sample_uniformsecondary lib self (log_fallback self (snd (tier1 lib self s)))
          \<or> sample_try lib self s
            = sample_doublegaussian lib self (log_fallback self (snd (tier1 lib self s)))
          \<or> sample_try lib self s
            = sample_lognormal lib self (log_fallback self (snd (tier1 lib self s)))
          \<or> sample_try lib self s
            = sample_dip lib self (log_fallback self (snd (tier1 lib self s)))
          \<or> sample_try lib self s
            = sample_powerlaw lib self (log_fallback self (snd (tier1 lib self s))))
       \<and> (\<not> is_substring ''uniformsecondary'' (mass_model self)
            \<and> \<not> is_substring ''doublegaussian'' (mass_model self)
            \<and> \<not> is_substring ''lognormal'' (mass_model self)
            \<and> \<not> is_substring ''loggaussian'' (mass_model self)
            \<and> \<not> is_substring ''dip'' (mass_model self)
            \<and> parameters self ''alpha'' = Some alpha \<and> parameters self ''mmin'' = Some mmin
            \<and> parameters self ''mmax'' = Some mmax \<longrightarrow>
          sample_try lib self s
            = make_prior lib (PowerLaw alpha mmin mmax)
                (\<lambda>pr. two_draws lib pr (number_of_samples self))
                (log_fallback self (snd (tier1 lib self s))))"
proof -
  from assms(1) have pl: "is_substring ''powerlaw'' (mass_model self)"
    by (rule contains_powerlaw)
  note run = sample_try_raised [OF assms(2)]
  from pl have a: "sample_try lib self s
            = sample_uniformsecondary lib self (log_fallback self (snd (tier1 lib self s)))
          \<or> sample_try lib self s
            = sample_doublegaussian lib self (log_fallback self (snd (tier1 lib self s)))
          \<or> sample_try lib self s
            = sample_lognormal lib self (log_fallback self (snd (tier1 lib self s)))
          \<or> sample_try lib self s
            = sample_dip lib self (log_fallback self (snd (tier1 lib self s)))
          \<or> sample_try lib self s
            = sample_powerlaw lib self (log_fallback self (snd (tier1 lib self s)))"
    unfolding run by (simp add: tier2_dispatch_def)
  from pl have b: "sample_try lib self s
            = make_prior lib (PowerLaw alpha mmin mmax)
                (\<lambda>pr. two_draws lib pr (number_of_samples self))
                (log_fallback self (snd (tier1 lib self s)))"
    if "\<not> is_substring ''uniformsecondary'' (mass_model self)"
       "\<not> is_substring ''doublegaussian'' (mass_model self)"
       "\<not> is_substring ''lognormal'' (mass_model self)"
       "\<not> is_substring ''loggaussian'' (mass_model self)"
       "\<not> is_substring ''dip'' (mass_model self)"
       "parameters self ''alpha'' = Some alpha" "parameters self ''mmin'' = Some mmin"
       "parameters self ''mmax'' = Some mmax"
    unfolding run using that by (simp add: tier2_dispatch_def sample_powerlaw_run)
  from a b show ?thesis by blast
qed

theorem powerlaw_names_fall_back_witness:
  "fst (tier1 test_library
          (test_mass ''powerlawpeak'' [''alpha'' \<mapsto> 2, ''mmin'' \<mapsto> 5, ''mmax'' \<mapsto> 50]) test_state)
     = Some (LibraryError ''No module named gwpopulation'')
   \<and> samples (snd (sample_try test_library
          (test_mass ''powerlawpeak'' [''alpha'' \<mapsto> 2, ''mmin'' \<mapsto> 5, ''mmax'' \<mapsto> 50]) test_state))
     = [''mass_1_source'' \<mapsto> [0, 0, 0], ''mass_2_source'' \<mapsto> [1, 1, 1]]"
proof -
  have a: "is_substring ''powerlawpeak''
      (mass_model (test_mass ''powerlawpeak'' [''alpha'' \<mapsto> 2, ''mmin'' \<mapsto> 5, ''mmax'' \<mapsto> 50]))
    \<or> is_substring ''brokenpowerlaw''
      (mass_model (test_mass ''powerlawpeak'' [''alpha'' \<mapsto> 2, ''mmin'' \<mapsto> 5, ''mmax'' \<mapsto> 50]))"
    by (simp add: test_mass_def)
  have b: "tier1 test_library
          (test_mass ''powerlawpeak'' [''alpha'' \<mapsto> 2, ''mmin'' \<mapsto> 5, ''mmax'' \<mapsto> 50]) test_state
     = (Some (LibraryError ''No module named gwpopulation''), test_state)"
    by (simp add: tier1_def select_model_def test_library_def test_mass_def eval_def)
  then have c: "fst (tier1 test_library
          (test_mass ''powerlawpeak'' [''alpha'' \<mapsto> 2, ''mmin'' \<mapsto> 5, ''mmax'' \<mapsto> 50]) test_state)
     = Some (LibraryError ''No module named gwpopulation'')"
    by simp
  show ?thesis
    using powerlaw_names_fall_back [OF a c, of 2 5 50] b
    by (simp add: test_mass_def test_library_def make_prior_def two_draws_def test_draw_def
          log_fallback_def test_state_def numeral_3_eq_3)
qed

end
